theory Spec2Isabelle
  imports Main "HOL-Library.Sublist" "HOL-Library.Multiset"
begin

section \<open>The canonical document model (edi-types.ts)\<close>

text \<open>
  The importer builds a tree of Loops, Segments and Elements. Field names carry a short
  prefix because all records of a theory share one name space. Two kinds of field are
  not part of the model: the identifiers and the two timestamps (they come from
  \<^verbatim>\<open>uuidv4()\<close> and the system clock, and no function below reads them), and the optional
  fields that only the editor writes (comments, condition descriptions, variants,
  inline examples). Numbers are integers: cardinalities and lengths are JSON integers in
  both source formats. Positions and order indices are counters that start at zero or one
  and only grow, hence naturals.
\<close>

datatype UsageType = Mandatory | Optional | Conditional
  \<comment> \<open>the string literals \<^verbatim>\<open>'M'\<close>, \<^verbatim>\<open>'O'\<close>, \<^verbatim>\<open>'C'\<close>\<close>

record CodeValue =
  cv_code :: string
  cv_description :: string
  cv_included :: bool

record Element =
  e_position :: nat
  e_name :: string
  e_dataType :: string
  e_minLength :: int
  e_maxLength :: int
  e_usage :: UsageType
  e_baseUsage :: "UsageType option"
  e_codeValues :: "CodeValue list option"
  e_baseCodes :: "CodeValue list option"

record Segment =
  s_name :: string
  s_description :: string
  s_usage :: UsageType
  s_baseUsage :: "UsageType option"
  s_minUse :: int
  s_maxUse :: int
  s_baseMinUse :: "int option"
  s_baseMaxUse :: "int option"
  s_elements :: "Element list"
  s_order :: "nat option"

datatype Loop = Loop
  (l_name: string)
  (l_description: string)
  (l_usage: UsageType)
  (l_baseUsage: "UsageType option")
  (l_minUse: int)
  (l_maxUse: int)
  (l_baseMinUse: "int option")
  (l_baseMaxUse: "int option")
  (l_segments: "Segment list")
  (l_loops: "Loop list")
  (l_order: "nat option")

record ExampleEDI =
  ex_title :: string
  ex_content :: string

record SpecificationMetadata =
  m_name :: string
  m_version :: string
  m_transactionSet :: string
  m_transactionSetName :: string
  m_ediVersion :: string
  m_baseSpecReference :: "string option"

record Specification =
  sp_metadata :: SpecificationMetadata
  sp_loops :: "Loop list"
  sp_examples :: "ExampleEDI list"

section \<open>The legacy source format\<close>

text \<open>
  Fields that the converter reads through \<^verbatim>\<open>?.\<close> or \<^verbatim>\<open>||\<close> and that the
  properties below talk about as absent are options. A string field is falsy exactly when
  it is empty.
\<close>

record OpenEDICode =
  c_Code :: string
  c_Description :: string

record OpenEDIElement =
  oe_Id :: string
  oe_Name :: string
  oe_DataType :: string
  oe_MinLength :: int
  oe_MaxLength :: int
  oe_Req :: "string option"
  oe_Codes :: "OpenEDICode list option"

record OpenEDISegment =
  os_Id :: string
  os_Name :: string
  os_Req :: "string option"
  os_Max :: "int option"
  os_Elements :: "OpenEDIElement list option"

datatype OpenEDILoop = OpenEDILoop
  (ol_Id: string)
  (ol_Name: string)
  (ol_Req: "string option")
  (ol_Max: "int option")
  (ol_Segments: "OpenEDISegment list option")
  (ol_Loops: "OpenEDILoop list option")

record OpenEDITransactionSet =
  ts_TransactionSetId :: string
  ts_Name :: string
  ts_Version :: string
  ts_Loops :: "OpenEDILoop list option"

section \<open>JavaScript operators used by the importer\<close>

text \<open>\<^verbatim>\<open>a || b\<close> on strings, on numbers and on optional arrays.\<close>

definition orStr :: "string \<Rightarrow> string \<Rightarrow> string" where
  "orStr a b = (if a = [] then b else a)"

definition orNum :: "int option \<Rightarrow> int \<Rightarrow> int" where
  "orNum a b = (case a of None \<Rightarrow> b | Some v \<Rightarrow> if v = 0 then b else v)"

definition orEmpty :: "'a list option \<Rightarrow> 'a list" where
  "orEmpty a = (case a of None \<Rightarrow> [] | Some xs \<Rightarrow> xs)"

definition orStrOpt :: "string option \<Rightarrow> string \<Rightarrow> string" where
  "orStrOpt a b = (case a of None \<Rightarrow> b | Some s \<Rightarrow> if s = [] then b else s)"

text \<open>Truthiness of an optional string: present and not empty.\<close>

definition truthy :: "string option \<Rightarrow> bool" where
  "truthy a = (case a of None \<Rightarrow> False | Some s \<Rightarrow> s \<noteq> [])"

text \<open>
  \<^verbatim>\<open>toUpperCase\<close> on the ASCII letters. The importer only compares its result with
  ASCII tokens and searches it for ASCII substrings, and no other character is mapped to
  an ASCII letter that occurs in them.
\<close>

definition toUpperChar :: "char \<Rightarrow> char" where
  "toUpperChar c =
     (case map_of (zip ''abcdefghijklmnopqrstuvwxyz'' ''ABCDEFGHIJKLMNOPQRSTUVWXYZ'') c of
        None \<Rightarrow> c
      | Some u \<Rightarrow> u)"

definition toUpperCase :: "string \<Rightarrow> string" where
  "toUpperCase s = map toUpperChar s"

section \<open>Usage classifier and legacy converter\<close>

definition parseUsage :: "string option \<Rightarrow> UsageType" where
  "parseUsage req =
     (case map_option toUpperCase req of
        None \<Rightarrow> Optional
      | Some u \<Rightarrow>
          if u = ''M'' then Mandatory
          else if u = ''O'' then Optional
          else if u = ''C'' \<or> u = ''X'' then Conditional
          else Optional)"

definition convertElement :: "OpenEDIElement \<Rightarrow> nat \<Rightarrow> Element" where
  "convertElement openEDIElement position =
     (let usage = parseUsage (oe_Req openEDIElement);
          codeValues = map (\<lambda>code. \<lparr>cv_code = c_Code code,
                                      cv_description = c_Description code,
                                      cv_included = True\<rparr>)
                           (orEmpty (oe_Codes openEDIElement))
      in \<lparr>e_position = position,
          e_name = orStr (oe_Name openEDIElement) (oe_Id openEDIElement),
          e_dataType = orStr (oe_DataType openEDIElement) ''AN'',
          e_minLength = oe_MinLength openEDIElement,
          e_maxLength = oe_MaxLength openEDIElement,
          e_usage = usage,
          e_baseUsage = Some usage,
          e_codeValues = (if length codeValues > 0 then Some codeValues else None),
          e_baseCodes = (if length codeValues > 0 then Some codeValues else None)\<rparr>)"

definition convertSegment :: "OpenEDISegment \<Rightarrow> Segment" where
  "convertSegment openEDISegment =
     (let usage = parseUsage (os_Req openEDISegment);
          maxUse = orNum (os_Max openEDISegment) 1
      in \<lparr>s_name = os_Id openEDISegment,
          s_description = orStr (os_Name openEDISegment) (os_Id openEDISegment),
          s_usage = usage,
          s_baseUsage = Some usage,
          s_minUse = (if usage = Mandatory then 1 else 0),
          s_maxUse = maxUse,
          s_baseMinUse = Some (if usage = Mandatory then 1 else 0),
          s_baseMaxUse = Some maxUse,
          s_elements = map (\<lambda>(el, idx). convertElement el (idx + 1))
                           (zip (orEmpty (os_Elements openEDISegment))
                                [0 ..< length (orEmpty (os_Elements openEDISegment))]),
          s_order = None\<rparr>)"

fun convertLoop :: "OpenEDILoop \<Rightarrow> Loop" where
  "convertLoop (OpenEDILoop loopId loopName req mx segs lps) =
     (let usage = parseUsage req;
          maxUse = orNum mx 1
      in Loop (orStr loopId loopName) loopName usage (Some usage)
           (if usage = Mandatory then 1 else 0) maxUse
           (Some (if usage = Mandatory then 1 else 0)) (Some maxUse)
           (map convertSegment (orEmpty segs))
           (map convertLoop (case lps of None \<Rightarrow> [] | Some ls \<Rightarrow> ls))
           None)"

definition importOpenEDISpec :: "OpenEDITransactionSet \<Rightarrow> Specification" where
  "importOpenEDISpec openEDISpec =
     \<lparr>sp_metadata =
        \<lparr>m_name = ts_TransactionSetId openEDISpec @ '' - '' @ ts_Name openEDISpec,
         m_version = ''1.0'',
         m_transactionSet = ts_TransactionSetId openEDISpec,
         m_transactionSetName = ts_Name openEDISpec,
         m_ediVersion = orStr (ts_Version openEDISpec) ''005010'',
         m_baseSpecReference =
           Some (''OpenEDI/'' @ ts_Version openEDISpec @ ''/'' @ ts_TransactionSetId openEDISpec)\<rparr>,
      sp_loops = map convertLoop (orEmpty (ts_Loops openEDISpec)),
      sp_examples = []\<rparr>"

section \<open>The schema source format\<close>

text \<open>
  A definition mapping is the list of its entries in the order \<^verbatim>\<open>Object.entries\<close> yields
  them; \<^verbatim>\<open>allSchemas[refName]\<close> is \<open>map_of\<close>, the lookup among the mapping's own entries.
  Of a definition and of a property only the attributes that the converter reads are kept.
  \<open>p_allOf\<close> lists the \<^verbatim>\<open>$ref\<close> of each combinator entry, \<open>p_items\<close> is the
  \<^verbatim>\<open>$ref\<close> of \<^verbatim>\<open>items\<close> when \<^verbatim>\<open>items\<close> is present.
\<close>

record OpenAPIProperty =
  p_type :: "string option"
  p_minLength :: "int option"
  p_maxLength :: "int option"
  p_maxItems :: "int option"
  p_format :: "string option"
  p_enum :: "string list option"
  p_allOf :: "string option list option"
  p_ref :: "string option"
  p_items :: "string option option"

record OpenAPISchemaDefinition =
  d_required :: "string list option"
  d_properties :: "(string \<times> OpenAPIProperty) list option"
  d_enum :: "string list option"
  d_segment_id :: "string option"
  d_message_id :: "string option"
  d_loop_id :: "string option"

type_synonym Schemas = "(string \<times> OpenAPISchemaDefinition) list"

record OpenAPISchema =
  components_schemas :: "Schemas option"

subsection \<open>String helpers\<close>

text \<open>\<^verbatim>\<open>s.replace(pat, '')\<close> with a string pattern: the first occurrence is removed.\<close>

fun removeFirst :: "string \<Rightarrow> string \<Rightarrow> string" where
  "removeFirst pat [] = []"
| "removeFirst pat (c # cs) =
     (if prefix pat (c # cs) then drop (length pat) (c # cs) else c # removeFirst pat cs)"

definition stripSchemaPrefix :: "string \<Rightarrow> string" where
  "stripSchemaPrefix r = removeFirst ''#/components/schemas/'' r"

definition isDigit :: "char \<Rightarrow> bool" where
  "isDigit c = (c \<in> set ''0123456789'')"

definition isUpperAZ :: "char \<Rightarrow> bool" where
  "isUpperAZ c = (c \<in> set ''ABCDEFGHIJKLMNOPQRSTUVWXYZ'')"

definition isSpace :: "char \<Rightarrow> bool" where
  "isSpace c = (c \<in> set [CHR '' '', CHR 0x09, CHR 0x0A, CHR 0x0B, CHR 0x0C, CHR 0x0D])"

definition trim :: "string \<Rightarrow> string" where
  "trim s = rev (dropWhile isSpace (rev (dropWhile isSpace s)))"

text \<open>
  The group captured by \<^verbatim>\<open>/_(\d+)$/\<close>: the digits that end the key, when there is at
  least one and an underscore stands right before them.
\<close>

definition digitSuffix :: "string \<Rightarrow> string option" where
  "digitSuffix key =
     (let ds = rev (takeWhile isDigit (rev key));
          front = rev (dropWhile isDigit (rev key))
      in if ds \<noteq> [] \<and> front \<noteq> [] \<and> last front = CHR ''_'' then Some ds else None)"

text \<open>
  \<^verbatim>\<open>parseInt(digits, 10)\<close> on a string of decimal digits, as an exact natural number
  (the language rounds a suffix of more than fifteen digits to the nearest double).
\<close>

definition digitValue :: "char \<Rightarrow> nat" where
  "digitValue c = of_char c - 48"

definition parseInt :: "string \<Rightarrow> nat" where
  "parseInt ds = foldl (\<lambda>acc c. 10 * acc + digitValue c) 0 ds"

definition parseDataTypeFromFormat :: "string option \<Rightarrow> string" where
  "parseDataTypeFromFormat format =
     (if \<not> truthy format then ''AN''
      else let formatUpper = toUpperCase (orStrOpt format []) in
        if sublist ''_ID'' formatUpper then ''ID''
        else if sublist ''_N0'' formatUpper then ''N0''
        else if sublist ''_N2'' formatUpper then ''N2''
        else if sublist ''_R'' formatUpper then ''R''
        else if sublist ''_DT'' formatUpper then ''DT''
        else if sublist ''_TM'' formatUpper then ''TM''
        else ''AN'')"

definition parseElementNameFromKey :: "string \<Rightarrow> string" where
  "parseElementNameFromKey key =
     (let withoutSuffix =
            (case digitSuffix key of
               None \<Rightarrow> key
             | Some ds \<Rightarrow> take (length key - length ds - 1) key)
      in trim (concat (map (\<lambda>c. if isUpperAZ c then [CHR '' '', c] else [c]) withoutSuffix)))"

definition getElementPosition :: "string \<Rightarrow> nat" where
  "getElementPosition key = (case digitSuffix key of Some ds \<Rightarrow> parseInt ds | None \<Rightarrow> 1)"

subsection \<open>Segments\<close>

definition enumCodes :: "string list \<Rightarrow> CodeValue list" where
  "enumCodes en = map (\<lambda>code. \<lparr>cv_code = code, cv_description = code, cv_included = True\<rparr>) en"

text \<open>
  The code values of one property. The loop over \<^verbatim>\<open>allOf\<close> overwrites
  \<^verbatim>\<open>codeValues\<close> at each entry that resolves to a definition with an \<^verbatim>\<open>enum\<close>; an
  inline \<^verbatim>\<open>enum\<close> overwrites it last. An array is truthy also when it is empty.
\<close>

definition allOfStep ::
  "Schemas \<Rightarrow> CodeValue list option \<Rightarrow> string option \<Rightarrow> CodeValue list option" where
  "allOfStep allSchemas codeValues r =
     (case r of
        None \<Rightarrow> codeValues
      | Some rf \<Rightarrow>
          if rf = [] then codeValues
          else (case map_of allSchemas (stripSchemaPrefix rf) of
                  None \<Rightarrow> codeValues
                | Some refSchema \<Rightarrow>
                    (case d_enum refSchema of
                       None \<Rightarrow> codeValues
                     | Some en \<Rightarrow> Some (enumCodes en))))"

definition propCodeValues :: "Schemas \<Rightarrow> OpenAPIProperty \<Rightarrow> CodeValue list option" where
  "propCodeValues allSchemas prop =
     (let codeValues =
            (case p_allOf prop of
               None \<Rightarrow> None
             | Some refs \<Rightarrow> foldl (allOfStep allSchemas) None refs)
      in case p_enum prop of None \<Rightarrow> codeValues | Some en \<Rightarrow> Some (enumCodes en))"

definition segmentElement ::
  "OpenAPISchemaDefinition \<Rightarrow> Schemas \<Rightarrow> string \<times> OpenAPIProperty \<Rightarrow> Element" where
  "segmentElement schema allSchemas entry =
     (let propKey = fst entry;
          prop = snd entry;
          position = getElementPosition propKey;
          isElementRequired =
            (case d_required schema of None \<Rightarrow> False | Some rq \<Rightarrow> propKey \<in> set rq);
          codeValues = propCodeValues allSchemas prop
      in \<lparr>e_position = position,
          e_name = parseElementNameFromKey propKey,
          e_dataType = parseDataTypeFromFormat (p_format prop),
          e_minLength = orNum (p_minLength prop) 0,
          e_maxLength = orNum (p_maxLength prop) 0,
          e_usage = (if isElementRequired then Mandatory else Optional),
          e_baseUsage = Some (if isElementRequired then Mandatory else Optional),
          e_codeValues = codeValues,
          e_baseCodes = codeValues\<rparr>)"

definition propEntries ::
  "(string \<times> OpenAPIProperty) list \<Rightarrow> (string \<times> OpenAPIProperty) list" where
  "propEntries props = filter (\<lambda>entry. \<not> prefix ''Model'' (fst entry) \<and> fst entry \<noteq> ''$ref'') props"

text \<open>
  \<^verbatim>\<open>elements.sort((a, b) => a.position - b.position)\<close>: the language's sort is stable,
  and so is \<open>sort_key\<close>.
\<close>

definition importOpenAPISegment ::
  "string \<Rightarrow> OpenAPISchemaDefinition \<Rightarrow> Schemas \<Rightarrow> string list \<Rightarrow> int \<Rightarrow> Segment" where
  "importOpenAPISegment segmentId schema allSchemas requiredSegments maxUse =
     (let isRequired = (segmentId \<in> set requiredSegments);
          elements =
            (case d_properties schema of
               None \<Rightarrow> []
             | Some props \<Rightarrow>
                 sort_key e_position (map (segmentElement schema allSchemas) (propEntries props)))
      in \<lparr>s_name = segmentId,
          s_description = segmentId,
          s_usage = (if isRequired then Mandatory else Optional),
          s_baseUsage = Some (if isRequired then Mandatory else Optional),
          s_minUse = (if isRequired then 1 else 0),
          s_maxUse = maxUse,
          s_baseMinUse = Some (if isRequired then 1 else 0),
          s_baseMaxUse = Some maxUse,
          s_elements = elements,
          s_order = None\<rparr>)"

subsection \<open>Loops\<close>

definition isArray :: "OpenAPIProperty \<Rightarrow> bool" where
  "isArray prop = (p_type prop = Some ''array'')"

definition itemMaxUse :: "OpenAPIProperty \<Rightarrow> int" where
  "itemMaxUse prop = (if isArray prop then orNum (p_maxItems prop) 999999 else 1)"

text \<open>The variable \<^verbatim>\<open>refName\<close> after the two assignments; \<open>None\<close> is \<^verbatim>\<open>undefined\<close>.\<close>

definition refNameOf :: "OpenAPIProperty \<Rightarrow> string option" where
  "refNameOf prop =
     (if truthy (p_ref prop) then Some (stripSchemaPrefix (orStrOpt (p_ref prop) []))
      else if isArray prop \<and> truthy (case p_items prop of None \<Rightarrow> None | Some r \<Rightarrow> r)
        then Some (stripSchemaPrefix (orStrOpt (case p_items prop of None \<Rightarrow> None | Some r \<Rightarrow> r) []))
      else None)"

text \<open>
  The guards around the body of the property loop: the key is not \<^verbatim>\<open>Model\<close>,
  \<^verbatim>\<open>refName\<close> is truthy and \<^verbatim>\<open>allSchemas[refName]\<close> is a definition. The result is
  \<^verbatim>\<open>refSchema\<close> when all three hold.
\<close>

definition resolveProperty ::
  "Schemas \<Rightarrow> string \<times> OpenAPIProperty \<Rightarrow> OpenAPISchemaDefinition option" where
  "resolveProperty allSchemas entry =
     (if fst entry = ''Model'' then None
      else if \<not> truthy (refNameOf (snd entry)) then None
      else map_of allSchemas (orStrOpt (refNameOf (snd entry)) []))"

text \<open>
  \<^verbatim>\<open>importOpenAPILoop\<close> calls itself once for every loop-like definition a property
  resolves to, with no record of the definitions already entered. The first argument
  bounds the depth of these calls; \<open>None\<close> says that the bound was reached, so a call that
  never returns is one that is \<open>None\<close> at every bound. \<open>walkProperties\<close> is the
  \<^verbatim>\<open>for\<close> loop over the properties, from the property list that is left and the
  current \<^verbatim>\<open>itemOrder\<close> to the two arrays it fills.
\<close>

fun importOpenAPILoop ::
    "nat \<Rightarrow> OpenAPISchemaDefinition \<Rightarrow> Schemas \<Rightarrow> int \<Rightarrow> bool \<Rightarrow> nat option \<Rightarrow> Loop option"
  and walkProperties ::
    "nat \<Rightarrow> Schemas \<Rightarrow> string list \<Rightarrow> nat \<Rightarrow> (string \<times> OpenAPIProperty) list
      \<Rightarrow> (Segment list \<times> Loop list) option"
where
  "importOpenAPILoop 0 loopSchema allSchemas maxUse isRequired ord = None"
| "importOpenAPILoop (Suc fuel) loopSchema allSchemas maxUse isRequired ord =
     (let loopId = orStrOpt (d_loop_id loopSchema) ''LOOP'';
          requiredItems = orEmpty (d_required loopSchema)
      in case (case d_properties loopSchema of
                 None \<Rightarrow> Some ([], [])
               | Some props \<Rightarrow> walkProperties fuel allSchemas requiredItems 0 props) of
           None \<Rightarrow> None
         | Some (segments, nestedLoops) \<Rightarrow>
             Some (Loop loopId loopId
                     (if isRequired then Mandatory else Optional)
                     (Some (if isRequired then Mandatory else Optional))
                     (if isRequired then 1 else 0) maxUse
                     (Some (if isRequired then 1 else 0)) (Some maxUse)
                     segments nestedLoops ord))"
| "walkProperties fuel allSchemas requiredItems itemOrder [] = Some ([], [])"
| "walkProperties fuel allSchemas requiredItems itemOrder (entry # rest) =
     (case resolveProperty allSchemas entry of
        None \<Rightarrow> walkProperties fuel allSchemas requiredItems itemOrder rest
      | Some refSchema \<Rightarrow>
          if truthy (d_loop_id refSchema) then
            (case importOpenAPILoop fuel refSchema allSchemas (itemMaxUse (snd entry))
                    (fst entry \<in> set requiredItems) (Some itemOrder) of
               None \<Rightarrow> None
             | Some nestedLoop \<Rightarrow>
                 (case walkProperties fuel allSchemas requiredItems (itemOrder + 1) rest of
                    None \<Rightarrow> None
                  | Some (segments, nestedLoops) \<Rightarrow> Some (segments, nestedLoop # nestedLoops)))
          else if truthy (d_segment_id refSchema) then
            (case walkProperties fuel allSchemas requiredItems (itemOrder + 1) rest of
               None \<Rightarrow> None
             | Some (segments, nestedLoops) \<Rightarrow>
                 Some ((importOpenAPISegment (orStrOpt (d_segment_id refSchema) []) refSchema
                          allSchemas requiredItems (itemMaxUse (snd entry)))
                         \<lparr>s_order := Some itemOrder\<rparr> # segments,
                       nestedLoops))
          else walkProperties fuel allSchemas requiredItems (itemOrder + 1) rest)"

subsection \<open>The transaction set\<close>

definition TRANSACTION_SET_TEMPLATES :: "(string \<times> string \<times> string) list" where
  "TRANSACTION_SET_TEMPLATES =
    [(''315'', ''Status Details (Ocean)'', ''Ocean shipment status details''),
     (''810'', ''Invoice'', ''Invoice transaction set''),
     (''850'', ''Purchase Order'', ''Purchase order transaction set''),
     (''855'', ''Purchase Order Acknowledgment'', ''PO acknowledgment''),
     (''856'', ''Ship Notice/Manifest'', ''Advance ship notice (ASN)''),
     (''820'', ''Payment Order/Remittance Advice'', ''Payment information''),
     (''990'', ''Response to a Load Tender'', ''Load tender response''),
     (''997'', ''Functional Acknowledgment'', ''FA transaction set''),
     (''999'', ''Implementation Acknowledgment'', ''IA transaction set''),
     (''204'', ''Motor Carrier Load Tender'', ''Load tender''),
     (''210'', ''Motor Carrier Freight Details and Invoice'', ''Freight invoice''),
     (''214'', ''Transportation Carrier Shipment Status Message'', ''Shipment status''),
     (''270'', ''Eligibility, Coverage or Benefit Inquiry'', ''Healthcare eligibility inquiry''),
     (''271'', ''Eligibility, Coverage or Benefit Information'', ''Healthcare eligibility response''),
     (''276'', ''Health Care Claim Status Request'', ''Claim status request''),
     (''277'', ''Health Care Claim Status Response'', ''Claim status response''),
     (''834'', ''Benefit Enrollment and Maintenance'', ''Enrollment transaction''),
     (''835'', ''Health Care Claim Payment/Advice'', ''Remittance advice''),
     (''837'', ''Health Care Claim'', ''Healthcare claim (Professional/Institutional/Dental)'')]"

text \<open>\<^verbatim>\<open>template?.name || fallback\<close>.\<close>

definition templateName :: "string \<Rightarrow> string \<Rightarrow> string" where
  "templateName transactionSetId fallback =
     (case map_of TRANSACTION_SET_TEMPLATES transactionSetId of
        None \<Rightarrow> fallback
      | Some template \<Rightarrow> orStr (fst template) fallback)"

datatype error =
    EmptySpecificationArray
  | NoTransactionSet
  | MalformedJson
  | IsOpenAPI Specification

text \<open>
  The first definition whose message-id marker is truthy is the transaction set. The walk
  over its properties is, statement for statement, the walk of \<^verbatim>\<open>importOpenAPILoop\<close>,
  so \<open>walkProperties\<close> stands for both copies.
\<close>

definition findTransactionSet :: "Schemas \<Rightarrow> (string \<times> OpenAPISchemaDefinition) option" where
  "findTransactionSet schemas = find (\<lambda>entry. truthy (d_message_id (snd entry))) schemas"

definition importOpenAPIFormat :: "nat \<Rightarrow> OpenAPISchema \<Rightarrow> (error + Specification) option" where
  "importOpenAPIFormat fuel parsed =
     (let schemas = orEmpty (components_schemas parsed) in
      case findTransactionSet schemas of
        None \<Rightarrow> Some (Inl NoTransactionSet)
      | Some found \<Rightarrow>
          (let transactionSetSchema = snd found;
               transactionSetId = orStrOpt (d_message_id transactionSetSchema) [];
               requiredItems = orEmpty (d_required transactionSetSchema)
           in case (case d_properties transactionSetSchema of
                      None \<Rightarrow> Some ([], [])
                    | Some props \<Rightarrow> walkProperties fuel schemas requiredItems 0 props) of
                None \<Rightarrow> None
              | Some (segments, loops) \<Rightarrow>
                  Some (Inr
                    \<lparr>sp_metadata =
                       \<lparr>m_name = templateName transactionSetId
                                   (''Transaction Set '' @ transactionSetId),
                        m_version = ''1.0'',
                        m_transactionSet = transactionSetId,
                        m_transactionSetName = templateName transactionSetId transactionSetId,
                        m_ediVersion = ''005010'',
                        m_baseSpecReference = Some (''EdiNation/OpenAPI/'' @ transactionSetId)\<rparr>,
                     sp_loops =
                       [Loop (''TS'' @ transactionSetId) (''Transaction Set '' @ transactionSetId)
                          Mandatory (Some Mandatory) 1 1 (Some 1) (Some 1) segments loops None],
                     sp_examples = []\<rparr>)))"

subsection \<open>Dispatch\<close>

text \<open>
  The value that \<^verbatim>\<open>JSON.parse\<close> returns, by the three shapes the dispatcher tells
  apart: an object with both an \<^verbatim>\<open>openapi\<close> and a \<^verbatim>\<open>components\<close> key, an array, any
  other object. The parser itself belongs to the platform and is a parameter; \<open>None\<close> is
  its \<^verbatim>\<open>SyntaxError\<close>.
\<close>

datatype parsed =
    OpenAPIObject OpenAPISchema
  | LegacyArray "OpenEDITransactionSet list"
  | LegacyObject OpenEDITransactionSet

fun isOpenAPIFormat :: "parsed \<Rightarrow> bool" where
  "isOpenAPIFormat (OpenAPIObject _) = True"
| "isOpenAPIFormat _ = False"

definition parseOpenEDIJson ::
  "(string \<Rightarrow> parsed option) \<Rightarrow> nat \<Rightarrow> string \<Rightarrow> (error + OpenEDITransactionSet) option" where
  "parseOpenEDIJson JSON_parse fuel jsonContent =
     (case JSON_parse jsonContent of
        None \<Rightarrow> Some (Inl MalformedJson)
      | Some (OpenAPIObject doc) \<Rightarrow>
          (case importOpenAPIFormat fuel doc of
             None \<Rightarrow> None
           | Some (Inl e) \<Rightarrow> Some (Inl e)
           | Some (Inr spec) \<Rightarrow> Some (Inl (IsOpenAPI spec)))
      | Some (LegacyArray xs) \<Rightarrow>
          (case xs of
             [] \<Rightarrow> Some (Inl EmptySpecificationArray)
           | x # _ \<Rightarrow> Some (Inr x))
      | Some (LegacyObject x) \<Rightarrow> Some (Inr x))"

definition parseAndImportSpec ::
  "(string \<Rightarrow> parsed option) \<Rightarrow> nat \<Rightarrow> string \<Rightarrow> (error + Specification) option" where
  "parseAndImportSpec JSON_parse fuel jsonContent =
     (case parseOpenEDIJson JSON_parse fuel jsonContent of
        None \<Rightarrow> None
      | Some (Inr openEDISpec) \<Rightarrow> Some (Inr (importOpenEDISpec openEDISpec))
      | Some (Inl (IsOpenAPI spec)) \<Rightarrow> Some (Inr spec)
      | Some (Inl e) \<Rightarrow> Some (Inl e))"

section \<open>Reading a converted tree\<close>

text \<open>
  The loops of a tree (a loop, then those below it), and from them the segments and the
  elements of a specification: "every produced entity" ranges over these lists.
\<close>

fun loopsOf :: "Loop \<Rightarrow> Loop list" where
  "loopsOf (Loop n d u bu mi ma bmi bma segs lps ord) =
     Loop n d u bu mi ma bmi bma segs lps ord # concat (map loopsOf lps)"


definition specLoops :: "Specification \<Rightarrow> Loop list" where
  "specLoops spec = concat (map loopsOf (sp_loops spec))"

definition specSegments :: "Specification \<Rightarrow> Segment list" where
  "specSegments spec = concat (map l_segments (specLoops spec))"

definition specElements :: "Specification \<Rightarrow> Element list" where
  "specElements spec = concat (map s_elements (specSegments spec))"

text \<open>
  The segments and the loops of one level taken together and sorted by \<^verbatim>\<open>order\<close>, as a
  consumer interleaves them.
\<close>

datatype Item = SegmentItem Segment | LoopItem Loop


fun itemOrder :: "Item \<Rightarrow> nat" where
  "itemOrder (SegmentItem s) = (case s_order s of None \<Rightarrow> 0 | Some k \<Rightarrow> k)"
| "itemOrder (LoopItem l) = (case l_order l of None \<Rightarrow> 0 | Some k \<Rightarrow> k)"



text \<open>
  The source side of a level: the definitions its properties resolve to, in declaration
  order; which of them are structural, and with which kind and identifier; which of them
  are loop-like, that is, entered by a recursive call.
\<close>

definition resolvedDefinitions ::
  "Schemas \<Rightarrow> (string \<times> OpenAPIProperty) list \<Rightarrow> OpenAPISchemaDefinition list" where
  "resolvedDefinitions allSchemas props = List.map_filter (resolveProperty allSchemas) props"



definition loopRefs ::
  "Schemas \<Rightarrow> OpenAPISchemaDefinition \<Rightarrow> OpenAPISchemaDefinition list" where
  "loopRefs allSchemas d =
     filter (\<lambda>r. truthy (d_loop_id r)) (resolvedDefinitions allSchemas (orEmpty (d_properties d)))"


text \<open>
  \<open>nestingWithin n allSchemas d\<close>: every chain of loop-like references that starts at
  \<open>d\<close> ends after fewer than \<open>n\<close> definitions.
\<close>

fun nestingWithin :: "nat \<Rightarrow> Schemas \<Rightarrow> OpenAPISchemaDefinition \<Rightarrow> bool" where
  "nestingWithin 0 allSchemas d = False"
| "nestingWithin (Suc n) allSchemas d = list_all (nestingWithin n allSchemas) (loopRefs allSchemas d)"

section \<open>Example inputs\<close>

definition noProperty :: OpenAPIProperty where
  "noProperty = \<lparr>p_type = None, p_minLength = None, p_maxLength = None, p_maxItems = None,
     p_format = None, p_enum = None, p_allOf = None, p_ref = None, p_items = None\<rparr>"

definition noDefinition :: OpenAPISchemaDefinition where
  "noDefinition = \<lparr>d_required = None, d_properties = None, d_enum = None,
     d_segment_id = None, d_message_id = None, d_loop_id = None\<rparr>"

definition refTo :: "string \<Rightarrow> OpenAPIProperty" where
  "refTo defName = noProperty\<lparr>p_ref := Some (''#/components/schemas/'' @ defName)\<rparr>"

text \<open>
  An invoice in the schema format: the header segment of the importer's own test, a
  bookkeeping property, a reference to a definition that the mapping does not have, and a
  repeated loop whose segment declares its second element first.
\<close>

definition rootProperties810 :: "(string \<times> OpenAPIProperty) list" where
  "rootProperties810 =
     [(''Model'', noProperty\<lparr>p_type := Some ''string''\<rparr>),
      (''ST'', refTo ''ST''),
      (''Extension'', refTo ''Missing''),
      (''N1Loop'', noProperty\<lparr>p_type := Some ''array'', p_maxItems := Some 200,
                                p_items := Some (Some ''#/components/schemas/Loop_N1'')\<rparr>)]"

definition root810 :: OpenAPISchemaDefinition where
  "root810 = noDefinition\<lparr>d_message_id := Some ''810'', d_required := Some [''ST''],
                          d_properties := Some rootProperties810\<rparr>"

definition schemas810 :: Schemas where
  "schemas810 =
     [(''X12_00501_810'', root810),
      (''ST'', noDefinition\<lparr>d_segment_id := Some ''ST'',
                d_required := Some [''TransactionSetIdentifierCode_01''],
                d_properties := Some
                  [(''TransactionSetIdentifierCode_01'',
                    noProperty\<lparr>p_type := Some ''string'', p_format := Some ''X12_ID'',
                               p_minLength := Some 3, p_maxLength := Some 3\<rparr>)]\<rparr>),
      (''Loop_N1'', noDefinition\<lparr>d_loop_id := Some ''N1'',
                d_properties := Some [(''N1'', refTo ''N1'')]\<rparr>),
      (''N1'', noDefinition\<lparr>d_segment_id := Some ''N1'',
                d_properties := Some
                  [(''Name_02'', noProperty\<lparr>p_type := Some ''string'', p_maxLength := Some 60\<rparr>),
                   (''EntityIdentifierCode_01'',
                    noProperty\<lparr>p_allOf := Some [Some ''#/components/schemas/X12_ID_98'']\<rparr>)]\<rparr>),
      (''X12_ID_98'', noDefinition\<lparr>d_enum := Some [''ST'', ''BT'']\<rparr>)]"

definition doc810 :: OpenAPISchema where
  "doc810 = \<lparr>components_schemas = Some schemas810\<rparr>"

text \<open>
  A legacy invoice after the importer's test "should set base values", with a second
  element that carries a code list.
\<close>

definition legacy810 :: OpenEDITransactionSet where
  "legacy810 =
     \<lparr>ts_TransactionSetId = ''810'', ts_Name = ''Invoice'', ts_Version = ''005010'',
      ts_Loops = Some
        [OpenEDILoop ''LOOP1'' ''Loop'' (Some ''M'') (Some 5)
           (Some [\<lparr>os_Id = ''SEG1'', os_Name = ''Segment'', os_Req = Some ''O'',
                   os_Max = Some 10,
                   os_Elements = Some
                     [\<lparr>oe_Id = ''EL01'', oe_Name = ''Element'', oe_DataType = ''AN'',
                       oe_MinLength = 1, oe_MaxLength = 50, oe_Req = Some ''C'',
                       oe_Codes = None\<rparr>,
                      \<lparr>oe_Id = ''EL02'', oe_Name = ''Entity Identifier Code'',
                       oe_DataType = ''ID'', oe_MinLength = 2, oe_MaxLength = 3,
                       oe_Req = Some ''M'',
                       oe_Codes = Some [\<lparr>c_Code = ''ST'', c_Description = ''Ship To''\<rparr>]\<rparr>]\<rparr>])
           None]\<rparr>"

text \<open>What the two converters return on these inputs.\<close>

definition spec810 :: Specification where
  "spec810 =
     \<lparr>sp_metadata =
               \<lparr>m_name = ''Invoice'', m_version = ''1.0'',
                  m_transactionSet = ''810'', m_transactionSetName = ''Invoice'',
                  m_ediVersion = ''005010'',
                  m_baseSpecReference = Some ''EdiNation/OpenAPI/810''\<rparr>,
               sp_loops =
                 [Loop ''TS810'' ''Transaction Set 810'' Mandatory
                   (Some Mandatory) 1 1 (Some 1) (Some 1)
                   [\<lparr>s_name = ''ST'', s_description = ''ST'',
                       s_usage = Mandatory, s_baseUsage = Some Mandatory,
                       s_minUse = 1, s_maxUse = 1, s_baseMinUse = Some 1,
                       s_baseMaxUse = Some 1,
                       s_elements =
                         [\<lparr>e_position = 1,
                             e_name = ''Transaction Set Identifier Code'',
                             e_dataType = ''ID'', e_minLength = 3,
                             e_maxLength = 3, e_usage = Mandatory,
                             e_baseUsage = Some Mandatory, e_codeValues = None,
                             e_baseCodes = None\<rparr>],
                       s_order = Some 0\<rparr>]
                   [Loop ''N1'' ''N1'' Optional (Some Optional) 0 200 (Some 0)
                     (Some 200)
                     [\<lparr>s_name = ''N1'', s_description = ''N1'',
                         s_usage = Optional, s_baseUsage = Some Optional,
                         s_minUse = 0, s_maxUse = 1, s_baseMinUse = Some 0,
                         s_baseMaxUse = Some 1,
                         s_elements =
                           [\<lparr>e_position = 1, e_name = ''Entity Identifier Code'',
                               e_dataType = ''AN'', e_minLength = 0,
                               e_maxLength = 0, e_usage = Optional,
                               e_baseUsage = Some Optional,
                               e_codeValues =
                                 Some
                                  [\<lparr>cv_code = ''ST'', cv_description = ''ST'',
                                      cv_included = True\<rparr>,
                                   \<lparr>cv_code = ''BT'', cv_description = ''BT'',
                                      cv_included = True\<rparr>],
                               e_baseCodes =
                                 Some
                                  [\<lparr>cv_code = ''ST'', cv_description = ''ST'',
                                      cv_included = True\<rparr>,
                                   \<lparr>cv_code = ''BT'', cv_description = ''BT'',
                                      cv_included = True\<rparr>]\<rparr>,
                            \<lparr>e_position = 2, e_name = ''Name'',
                               e_dataType = ''AN'', e_minLength = 0,
                               e_maxLength = 60, e_usage = Optional,
                               e_baseUsage = Some Optional, e_codeValues = None,
                               e_baseCodes = None\<rparr>],
                         s_order = Some 0\<rparr>]
                     [] (Some 1)]
                   None],
               sp_examples = []\<rparr>"

definition legacySpec810 :: Specification where
  "legacySpec810 =
     \<lparr>sp_metadata =
         \<lparr>m_name = ''810 - Invoice'', m_version = ''1.0'',
            m_transactionSet = ''810'', m_transactionSetName = ''Invoice'',
            m_ediVersion = ''005010'',
            m_baseSpecReference = Some ''OpenEDI/005010/810''\<rparr>,
         sp_loops =
           [Loop ''LOOP1'' ''Loop'' Mandatory (Some Mandatory) 1 5 (Some 1)
             (Some 5)
             [\<lparr>s_name = ''SEG1'', s_description = ''Segment'',
                 s_usage = Optional, s_baseUsage = Some Optional, s_minUse = 0,
                 s_maxUse = 10, s_baseMinUse = Some 0, s_baseMaxUse = Some 10,
                 s_elements =
                   [\<lparr>e_position = 1, e_name = ''Element'', e_dataType = ''AN'',
                       e_minLength = 1, e_maxLength = 50, e_usage = Conditional,
                       e_baseUsage = Some Conditional, e_codeValues = None,
                       e_baseCodes = None\<rparr>,
                    \<lparr>e_position = 2, e_name = ''Entity Identifier Code'',
                       e_dataType = ''ID'', e_minLength = 2, e_maxLength = 3,
                       e_usage = Mandatory, e_baseUsage = Some Mandatory,
                       e_codeValues =
                         Some
                          [\<lparr>cv_code = ''ST'', cv_description = ''Ship To'',
                              cv_included = True\<rparr>],
                       e_baseCodes =
                         Some
                          [\<lparr>cv_code = ''ST'', cv_description = ''Ship To'',
                              cv_included = True\<rparr>]\<rparr>],
                 s_order = None\<rparr>]
             [] None],
         sp_examples = []\<rparr>"

text \<open>
  Inputs at the edges of the two formats: a legacy segment whose \<^verbatim>\<open>Max\<close> is zero, a
  legacy element with an empty code list, and a segment-like definition with an element
  whose inline enumeration is empty.
\<close>

definition zeroMaxSegment :: OpenEDISegment where
  "zeroMaxSegment = \<lparr>os_Id = ''N9'', os_Name = ''Reference'', os_Req = Some ''O'',
                      os_Max = Some 0, os_Elements = None\<rparr>"



text \<open>
  A stand-in for the platform's parser on three texts, and a segment-like definition whose
  properties are declared out of positional order.
\<close>

definition knownTexts :: "string \<Rightarrow> parsed option" where
  "knownTexts txt =
     map_of [(''[]'', LegacyArray []),
             (''[invoice, order]'',
                LegacyArray [legacy810, legacy810\<lparr>ts_TransactionSetId := ''850''\<rparr>]),
             (''invoice'', LegacyObject legacy810)] txt"


text \<open>
  A loop-like definition that refers to itself, in a mapping with a transaction set; a
  transaction set whose marker is the empty string; a rank for the definitions of the
  invoice above that decreases along every loop-like reference; a level with a property
  that resolves to an enumeration holder before a segment.
\<close>

definition selfLoop :: OpenAPISchemaDefinition where
  "selfLoop = noDefinition\<lparr>d_loop_id := Some ''HL'',
                d_properties := Some [(''HLLoop'', refTo ''Loop_HL'')]\<rparr>"

definition cyclicSchemas :: Schemas where
  "cyclicSchemas =
     [(''X12_00501_856'', noDefinition\<lparr>d_message_id := Some ''856'',
         d_properties := Some [(''HLLoop'', refTo ''Loop_HL'')]\<rparr>),
      (''Loop_HL'', selfLoop)]"

definition cyclicDoc :: OpenAPISchema where
  "cyclicDoc = \<lparr>components_schemas = Some cyclicSchemas\<rparr>"

definition blankMarkerDoc :: OpenAPISchema where
  "blankMarkerDoc =
     \<lparr>components_schemas = Some [(''X12_00501_810'', noDefinition\<lparr>d_message_id := Some []\<rparr>)]\<rparr>"




section \<open>Properties\<close>

subsection \<open>The usage classifier\<close>

lemma toUpperCase_single:
  "toUpperCase s = [u] \<longleftrightarrow> (\<exists>c. s = [c] \<and> toUpperChar c = u)"
  by (cases s) (auto simp: toUpperCase_def)

lemma toUpperChar_M: "toUpperChar c = CHR ''M'' \<longleftrightarrow> c = CHR ''M'' \<or> c = CHR ''m''"
  by (auto simp: toUpperChar_def split: if_splits)

lemma toUpperChar_O: "toUpperChar c = CHR ''O'' \<longleftrightarrow> c = CHR ''O'' \<or> c = CHR ''o''"
  by (auto simp: toUpperChar_def split: if_splits)

lemma toUpperChar_C: "toUpperChar c = CHR ''C'' \<longleftrightarrow> c = CHR ''C'' \<or> c = CHR ''c''"
  by (auto simp: toUpperChar_def split: if_splits)

lemma toUpperChar_X: "toUpperChar c = CHR ''X'' \<longleftrightarrow> c = CHR ''X'' \<or> c = CHR ''x''"
  by (auto simp: toUpperChar_def split: if_splits)

lemmas upper_token = toUpperCase_single toUpperChar_M toUpperChar_O toUpperChar_C toUpperChar_X

text \<open>
  C3. The classifier is a total function of the requirement token, present or absent. It
  returns Mandatory exactly on \<^verbatim>\<open>M\<close> and \<^verbatim>\<open>m\<close>, Conditional exactly on \<^verbatim>\<open>C\<close>, \<^verbatim>\<open>c\<close>,
  \<^verbatim>\<open>X\<close> and \<^verbatim>\<open>x\<close>, and Optional on every other input: on \<^verbatim>\<open>O\<close> and \<^verbatim>\<open>o\<close>, on the
  absent token, on the empty token and on any other string. There is no error branch.
\<close>

theorem parseUsage_classifies:
  "(parseUsage req = Mandatory \<longleftrightarrow> req \<in> {Some ''M'', Some ''m''}) \<and>
   (parseUsage req = Conditional \<longleftrightarrow> req \<in> {Some ''C'', Some ''c'', Some ''X'', Some ''x''}) \<and>
   (parseUsage req = Optional \<longleftrightarrow>
      req \<notin> {Some ''M'', Some ''m'', Some ''C'', Some ''c'', Some ''X'', Some ''x''}) \<and>
   parseUsage (Some ''O'') = Optional \<and> parseUsage (Some ''o'') = Optional \<and>
   parseUsage None = Optional \<and> parseUsage (Some []) = Optional"
proof (cases req)
  case None
  then show ?thesis by (simp add: parseUsage_def upper_token)
next
  case (Some s)
  then show ?thesis by (auto simp: parseUsage_def upper_token)
qed

subsection \<open>Every entity of a converted tree is built by one of the constructors\<close>

lemma legacy_loops_shape:
  assumes P: "\<And>l. P (convertLoop l)"
  shows "\<forall>x \<in> set (loopsOf (convertLoop l)). P x \<and> (\<exists>src. l_segments x = map convertSegment src)"
proof (induction l rule: convertLoop.induct)
  case (1 loopId loopName req mx segs lps)
  have root: "P (convertLoop (OpenEDILoop loopId loopName req mx segs lps))" by (rule P)
  show ?case using 1 root
    by (auto simp: Let_def split: option.splits)
qed

lemma legacy_spec_shape:
  assumes P: "\<And>l. P (convertLoop l)" and S: "\<And>s. S (convertSegment s)"
  shows "(\<forall>x \<in> set (specLoops (importOpenEDISpec t)). P x) \<and>
         (\<forall>sg \<in> set (specSegments (importOpenEDISpec t)). S sg)"
  using legacy_loops_shape[of P, OF P] S
  by (fastforce simp: specLoops_def specSegments_def importOpenEDISpec_def)


lemma segment_elements:
  "e \<in> set (s_elements (importOpenAPISegment sid d all rq mu)) \<Longrightarrow>
     \<exists>entry. e = segmentElement d all entry"
  by (auto simp: importOpenAPISegment_def Let_def split: option.splits)

lemma walk_shape_step:
  assumes IH: "\<And>s mu r ord l. importOpenAPILoop n s all mu r ord = Some l \<Longrightarrow>
                 \<forall>x \<in> set (loopsOf l). P x \<and> (\<forall>sg \<in> set (l_segments x). S sg)"
    and S: "\<And>sid d rq mu k. S ((importOpenAPISegment sid d all rq mu)\<lparr>s_order := Some k\<rparr>)"
  shows "walkProperties n all req io ps = Some (segs, lps) \<Longrightarrow>
           (\<forall>sg \<in> set segs. S sg) \<and>
           (\<forall>l \<in> set lps. \<forall>x \<in> set (loopsOf l). P x \<and> (\<forall>sg \<in> set (l_segments x). S sg))"
proof (induction ps arbitrary: io segs lps)
  case Nil
  then show ?case by simp
next
  case (Cons e ps)
  show ?case
  proof (cases "resolveProperty all e")
    case None
    then show ?thesis using Cons.IH[of io segs lps] Cons.prems by simp
  next
    case (Some d)
    then show ?thesis using Cons.IH[of "io + 1"] Cons.prems S
        IH[of d "itemMaxUse (snd e)" "fst e \<in> set req" "Some io"]
      by (auto split: option.splits if_splits)
  qed
qed

lemma loop_shape:
  assumes P: "\<And>a b r mu segs lps ord.
        P (Loop a b (if r then Mandatory else Optional) (Some (if r then Mandatory else Optional))
             (if r then 1 else 0) mu (Some (if r then 1 else 0)) (Some mu) segs lps ord)"
    and S: "\<And>sid d rq mu k. S ((importOpenAPISegment sid d all rq mu)\<lparr>s_order := Some k\<rparr>)"
  shows "importOpenAPILoop n s all mu r ord = Some l \<Longrightarrow>
           \<forall>x \<in> set (loopsOf l). P x \<and> (\<forall>sg \<in> set (l_segments x). S sg)"
proof (induction n arbitrary: s mu r ord l)
  case 0
  then show ?case by simp
next
  case (Suc n)
  show ?case
  proof (cases "d_properties s")
    case None
    then show ?thesis using Suc.prems P[of _ _ r mu "[]" "[]" ord]
      by (auto simp: Let_def)
  next
    case (Some props)
    obtain segs lps where w: "walkProperties n all (orEmpty (d_required s)) 0 props = Some (segs, lps)"
      using Suc.prems Some by (auto simp: Let_def split: option.splits)
    have l: "l = Loop (orStrOpt (d_loop_id s) ''LOOP'') (orStrOpt (d_loop_id s) ''LOOP'')
               (if r then Mandatory else Optional) (Some (if r then Mandatory else Optional))
               (if r then 1 else 0) mu (Some (if r then 1 else 0)) (Some mu) segs lps ord"
      using Suc.prems Some w by (simp add: Let_def)
    from walk_shape_step[where P = P and S = S, OF Suc.IH S w]
    show ?thesis using P[of _ _ r mu segs lps ord] unfolding l by auto
  qed
qed

lemma walk_shape:
  assumes P: "\<And>a b r mu segs lps ord.
        P (Loop a b (if r then Mandatory else Optional) (Some (if r then Mandatory else Optional))
             (if r then 1 else 0) mu (Some (if r then 1 else 0)) (Some mu) segs lps ord)"
    and S: "\<And>sid d rq mu k. S ((importOpenAPISegment sid d all rq mu)\<lparr>s_order := Some k\<rparr>)"
    and w: "walkProperties n all req io ps = Some (segs, lps)"
  shows "(\<forall>sg \<in> set segs. S sg) \<and>
         (\<forall>l \<in> set lps. \<forall>x \<in> set (loopsOf l). P x \<and> (\<forall>sg \<in> set (l_segments x). S sg))"
  by (rule walk_shape_step[where P = P and S = S, OF _ S w])
     (rule loop_shape[where P = P and S = S, OF P S])

lemma format_shape:
  assumes P: "\<And>a b r mu segs lps ord.
        P (Loop a b (if r then Mandatory else Optional) (Some (if r then Mandatory else Optional))
             (if r then 1 else 0) mu (Some (if r then 1 else 0)) (Some mu) segs lps ord)"
    and S: "\<And>sid d all rq mu k. S ((importOpenAPISegment sid d all rq mu)\<lparr>s_order := Some k\<rparr>)"
    and ok: "importOpenAPIFormat n doc = Some (Inr spec)"
  shows "(\<forall>x \<in> set (specLoops spec). P x) \<and> (\<forall>sg \<in> set (specSegments spec). S sg)"
proof -
  obtain found where f: "findTransactionSet (orEmpty (components_schemas doc)) = Some found"
    using ok by (auto simp: importOpenAPIFormat_def Let_def split: option.splits)
  let ?all = "orEmpty (components_schemas doc)"
  let ?ts = "snd found"
  obtain segs lps where
    w: "(case d_properties ?ts of None \<Rightarrow> Some ([], [])
         | Some props \<Rightarrow> walkProperties n ?all (orEmpty (d_required ?ts)) 0 props) = Some (segs, lps)"
    and sp: "sp_loops spec = [Loop (''TS'' @ orStrOpt (d_message_id ?ts) [])
               (''Transaction Set '' @ orStrOpt (d_message_id ?ts) [])
               Mandatory (Some Mandatory) 1 1 (Some 1) (Some 1) segs lps None]"
    using ok f by (auto simp: importOpenAPIFormat_def Let_def split: option.splits)
  have inner: "(\<forall>sg \<in> set segs. S sg) \<and>
           (\<forall>l \<in> set lps. \<forall>x \<in> set (loopsOf l). P x \<and> (\<forall>sg \<in> set (l_segments x). S sg))"
  proof (cases "d_properties ?ts")
    case None
    then show ?thesis using w by simp
  next
    case (Some props)
    then have "walkProperties n ?all (orEmpty (d_required ?ts)) 0 props = Some (segs, lps)"
      using w by simp
    from walk_shape[where P = P and S = S, OF P S this] show ?thesis .
  qed
  have main: "P (Loop (''TS'' @ orStrOpt (d_message_id ?ts) [])
               (''Transaction Set '' @ orStrOpt (d_message_id ?ts) [])
               Mandatory (Some Mandatory) 1 1 (Some 1) (Some 1) segs lps None)"
    using P[of _ _ True 1 segs lps None] by simp
  show ?thesis using inner main
    by (auto simp: specLoops_def specSegments_def sp)
qed

lemma doc810_converts: "importOpenAPIFormat 1 doc810 = Some (Inr spec810)"
  by code_simp

lemma legacy810_converts: "importOpenEDISpec legacy810 = legacySpec810"
  by code_simp

subsection \<open>Usage in the schema format\<close>

text \<open>
  C10. Every Loop, Segment and Element of a specification that the schema-format converter
  returns has usage Mandatory or Optional, never Conditional, and the synthetic top-level
  loop is Mandatory. The legacy converter does produce Conditional, from the tokens
  \<^verbatim>\<open>C\<close> and \<^verbatim>\<open>X\<close>.
\<close>

theorem schema_usage_mandatory_or_optional:
  "importOpenAPIFormat n doc = Some (Inr spec) \<Longrightarrow>
     (\<forall>l \<in> set (specLoops spec). l_usage l \<in> {Mandatory, Optional}) \<and>
     (\<forall>s \<in> set (specSegments spec). s_usage s \<in> {Mandatory, Optional}) \<and>
     (\<forall>e \<in> set (specElements spec). e_usage e \<in> {Mandatory, Optional}) \<and>
     (\<exists>main. sp_loops spec = [main] \<and> l_usage main = Mandatory) \<and>
     l_usage (convertLoop (OpenEDILoop i nm (Some ''C'') mx sg lp)) = Conditional \<and>
     l_usage (convertLoop (OpenEDILoop i nm (Some ''X'') mx sg lp)) = Conditional"
proof -
  assume ok: "importOpenAPIFormat n doc = Some (Inr spec)"
  have 1: "(\<forall>l \<in> set (specLoops spec). l_usage l \<in> {Mandatory, Optional}) \<and>
     (\<forall>s \<in> set (specSegments spec). s_usage s \<in> {Mandatory, Optional})"
    by (rule format_shape[where P = "\<lambda>l. l_usage l \<in> {Mandatory, Optional}"
          and S = "\<lambda>s. s_usage s \<in> {Mandatory, Optional}", OF _ _ ok])
       (simp_all add: importOpenAPISegment_def Let_def)
  have "(\<forall>l \<in> set (specLoops spec). True) \<and>
     (\<forall>s \<in> set (specSegments spec). \<forall>e \<in> set (s_elements s). e_usage e \<in> {Mandatory, Optional})"
    by (rule format_shape[where P = "\<lambda>l. True"
          and S = "\<lambda>s. \<forall>e \<in> set (s_elements s). e_usage e \<in> {Mandatory, Optional}", OF _ _ ok])
       (auto dest!: segment_elements simp: segmentElement_def Let_def split: if_splits)
  then have 2: "\<forall>e \<in> set (specElements spec). e_usage e \<in> {Mandatory, Optional}"
    by (auto simp: specElements_def)
  have 3: "\<exists>main. sp_loops spec = [main] \<and> l_usage main = Mandatory"
    using ok by (auto simp: importOpenAPIFormat_def Let_def split: option.splits)
  have 4: "l_usage (convertLoop (OpenEDILoop i nm (Some ''C'') mx sg lp)) = Conditional"
    "l_usage (convertLoop (OpenEDILoop i nm (Some ''X'') mx sg lp)) = Conditional"
    by (simp_all add: Let_def parseUsage_def toUpperCase_def toUpperChar_def)
  show ?thesis using 1 2 3 4 by blast
qed

theorem schema_usage_mandatory_or_optional_witness:
  "importOpenAPIFormat 1 doc810 = Some (Inr spec810) \<and>
   Conditional \<notin> set (map l_usage (specLoops spec810)) \<and>
   Conditional \<notin> set (map s_usage (specSegments spec810)) \<and>
   Conditional \<notin> set (map e_usage (specElements spec810)) \<and>
   map l_usage (sp_loops spec810) = [Mandatory]"
proof -
  have "(\<forall>l \<in> set (specLoops spec810). l_usage l \<in> {Mandatory, Optional}) \<and>
     (\<forall>s \<in> set (specSegments spec810). s_usage s \<in> {Mandatory, Optional}) \<and>
     (\<forall>e \<in> set (specElements spec810). e_usage e \<in> {Mandatory, Optional}) \<and>
     (\<exists>main. sp_loops spec810 = [main] \<and> l_usage main = Mandatory)"
    using schema_usage_mandatory_or_optional[OF doc810_converts] by blast
  then show ?thesis using doc810_converts by auto
qed

subsection \<open>Fields of a converted legacy loop\<close>

lemma convertLoop_fields:
  "l_usage (convertLoop l) = parseUsage (ol_Req l)"
  "l_minUse (convertLoop l) = (if parseUsage (ol_Req l) = Mandatory then 1 else 0)"
  "l_maxUse (convertLoop l) = orNum (ol_Max l) 1"
  "l_baseUsage (convertLoop l) = Some (parseUsage (ol_Req l))"
  "l_baseMinUse (convertLoop l) = Some (if parseUsage (ol_Req l) = Mandatory then 1 else 0)"
  "l_baseMaxUse (convertLoop l) = Some (orNum (ol_Max l) 1)"
  by (cases l; simp add: Let_def)+

subsection \<open>Cardinality\<close>

text \<open>
  C6, as amended. For every Segment and Loop that either converter produces, the minimum
  occurrence is 1 when the usage is Mandatory and 0 otherwise. In the legacy converter the
  maximum occurrence is the source's \<^verbatim>\<open>Max\<close>, and 1 when \<^verbatim>\<open>Max\<close> is absent or zero.
\<close>

theorem minUse_follows_usage:
  "(\<forall>l \<in> set (specLoops (importOpenEDISpec t)).
       l_minUse l = (if l_usage l = Mandatory then 1 else 0)) \<and>
   (\<forall>s \<in> set (specSegments (importOpenEDISpec t)).
       s_minUse s = (if s_usage s = Mandatory then 1 else 0)) \<and>
   (importOpenAPIFormat n doc = Some (Inr spec) \<longrightarrow>
      (\<forall>l \<in> set (specLoops spec). l_minUse l = (if l_usage l = Mandatory then 1 else 0)) \<and>
      (\<forall>s \<in> set (specSegments spec). s_minUse s = (if s_usage s = Mandatory then 1 else 0))) \<and>
   s_maxUse (convertSegment sg) =
      (case os_Max sg of None \<Rightarrow> 1 | Some m \<Rightarrow> if m = 0 then 1 else m) \<and>
   l_maxUse (convertLoop lp) =
      (case ol_Max lp of None \<Rightarrow> 1 | Some m \<Rightarrow> if m = 0 then 1 else m)"
proof -
  have legacy: "(\<forall>l \<in> set (specLoops (importOpenEDISpec t)).
       l_minUse l = (if l_usage l = Mandatory then 1 else 0)) \<and>
   (\<forall>s \<in> set (specSegments (importOpenEDISpec t)).
       s_minUse s = (if s_usage s = Mandatory then 1 else 0))"
    by (rule legacy_spec_shape) (simp_all add: convertLoop_fields convertSegment_def Let_def)
  have schema: "importOpenAPIFormat n doc = Some (Inr spec) \<longrightarrow>
      (\<forall>l \<in> set (specLoops spec). l_minUse l = (if l_usage l = Mandatory then 1 else 0)) \<and>
      (\<forall>s \<in> set (specSegments spec). s_minUse s = (if s_usage s = Mandatory then 1 else 0))"
  proof
    assume ok: "importOpenAPIFormat n doc = Some (Inr spec)"
    show "(\<forall>l \<in> set (specLoops spec). l_minUse l = (if l_usage l = Mandatory then 1 else 0)) \<and>
      (\<forall>s \<in> set (specSegments spec). s_minUse s = (if s_usage s = Mandatory then 1 else 0))"
      by (rule format_shape[where P = "\<lambda>l. l_minUse l = (if l_usage l = Mandatory then 1 else 0)"
            and S = "\<lambda>s. s_minUse s = (if s_usage s = Mandatory then 1 else 0)", OF _ _ ok])
         (simp_all add: importOpenAPISegment_def Let_def)
  qed
  have mx: "s_maxUse (convertSegment sg) =
      (case os_Max sg of None \<Rightarrow> 1 | Some m \<Rightarrow> if m = 0 then 1 else m)"
    by (simp add: convertSegment_def Let_def orNum_def)
  have lmx: "l_maxUse (convertLoop lp) =
      (case ol_Max lp of None \<Rightarrow> 1 | Some m \<Rightarrow> if m = 0 then 1 else m)"
    by (simp add: convertLoop_fields orNum_def)
  show ?thesis using legacy schema mx lmx by blast
qed

theorem minUse_follows_usage_witness:
  "importOpenAPIFormat 1 doc810 = Some (Inr spec810) \<and>
   map (\<lambda>l. (l_usage l, l_minUse l)) (specLoops spec810) = [(Mandatory, 1), (Optional, 0)] \<and>
   map (\<lambda>s. (s_usage s, s_minUse s)) (specSegments spec810) = [(Mandatory, 1), (Optional, 0)] \<and>
   map (\<lambda>l. (l_usage l, l_minUse l)) (specLoops (importOpenEDISpec legacy810)) = [(Mandatory, 1)] \<and>
   map (\<lambda>s. (s_usage s, s_minUse s)) (specSegments (importOpenEDISpec legacy810)) = [(Optional, 0)]"
  using minUse_follows_usage[of legacy810 1 doc810 spec810] doc810_converts
  by (simp add: legacy810_converts) code_simp

text \<open>
  C6 as stated fails: a legacy segment that declares \<^verbatim>\<open>Max: 0\<close> gets maximum
  occurrence 1, not the value of its \<^verbatim>\<open>Max\<close> field.
\<close>

theorem maxUse_zero_counterexample:
  "os_Max zeroMaxSegment = Some 0 \<and> s_maxUse (convertSegment zeroMaxSegment) = 1"
  by (simp add: zeroMaxSegment_def convertSegment_def Let_def orNum_def)

subsection \<open>Base snapshots\<close>





subsection \<open>Dispatch of the legacy format\<close>

text \<open>
  C9. When the parsed input is an array in the legacy format, the dispatcher hands its first
  element to the legacy converter, and it fails with the "empty specification array"
  condition, and fails at all, exactly when the array has no element. A single legacy
  object is converted directly. In both non-failing cases the combined entry point returns
  the Specification that the legacy converter builds.
\<close>

theorem legacy_dispatch:
  "(JSON_parse txt = Some (LegacyArray xs) \<longrightarrow>
      parseOpenEDIJson JSON_parse n txt =
        (case xs of [] \<Rightarrow> Some (Inl EmptySpecificationArray) | x # _ \<Rightarrow> Some (Inr x)) \<and>
      parseAndImportSpec JSON_parse n txt =
        (case xs of [] \<Rightarrow> Some (Inl EmptySpecificationArray)
         | x # _ \<Rightarrow> Some (Inr (importOpenEDISpec x))) \<and>
      ((\<exists>e. parseAndImportSpec JSON_parse n txt = Some (Inl e)) \<longleftrightarrow> xs = []) \<and>
      (parseAndImportSpec JSON_parse n txt = Some (Inl EmptySpecificationArray) \<longleftrightarrow> xs = [])) \<and>
   (JSON_parse txt = Some (LegacyObject x) \<longrightarrow>
      parseOpenEDIJson JSON_parse n txt = Some (Inr x) \<and>
      parseAndImportSpec JSON_parse n txt = Some (Inr (importOpenEDISpec x)))"
  by (cases xs) (auto simp: parseOpenEDIJson_def parseAndImportSpec_def)

theorem legacy_dispatch_witness:
  "knownTexts ''[]'' = Some (LegacyArray []) \<and>
   parseAndImportSpec knownTexts 0 ''[]'' = Some (Inl EmptySpecificationArray) \<and>
   knownTexts ''[invoice, order]'' =
     Some (LegacyArray [legacy810, legacy810\<lparr>ts_TransactionSetId := ''850''\<rparr>]) \<and>
   parseAndImportSpec knownTexts 0 ''[invoice, order]'' = Some (Inr legacySpec810) \<and>
   knownTexts ''invoice'' = Some (LegacyObject legacy810) \<and>
   parseAndImportSpec knownTexts 0 ''invoice'' = Some (Inr legacySpec810)"
  using legacy_dispatch[of knownTexts "''[]''" "[]" 0 legacy810]
    legacy_dispatch[of knownTexts "''[invoice, order]''"
      "[legacy810, legacy810\<lparr>ts_TransactionSetId := ''850''\<rparr>]" 0 legacy810]
    legacy_dispatch[of knownTexts "''invoice''" "[]" 0 legacy810]
  by (simp add: knownTexts_def legacy810_converts)

subsection \<open>Element positions\<close>






subsection \<open>When the recursion returns\<close>

lemma resolved_Cons:
  "resolvedDefinitions all (e # ps) =
     (case resolveProperty all e of None \<Rightarrow> resolvedDefinitions all ps
      | Some d \<Rightarrow> d # resolvedDefinitions all ps)"
  by (simp add: resolvedDefinitions_def List.map_filter_simps split: option.splits)

lemma resolved_Nil: "resolvedDefinitions all [] = []"
  by (simp add: resolvedDefinitions_def List.map_filter_simps)

lemma walk_returns_step:
  assumes "\<And>s mu r ord. (importOpenAPILoop n s all mu r ord \<noteq> None) = nestingWithin n all s"
  shows "(walkProperties n all req io ps \<noteq> None) =
     list_all (nestingWithin n all) (filter (\<lambda>d. truthy (d_loop_id d)) (resolvedDefinitions all ps))"
proof (induction ps arbitrary: io)
  case Nil
  then show ?case by (simp add: resolved_Nil)
next
  case (Cons e ps)
  show ?case
  proof (cases "resolveProperty all e")
    case None
    then show ?thesis using Cons[of io] by (simp add: resolved_Cons)
  next
    case (Some d)
    then show ?thesis using Cons[of "io + 1"] assms[of d "itemMaxUse (snd e)" "fst e \<in> set req" "Some io"]
      by (auto simp: resolved_Cons split: option.splits)
  qed
qed

lemma loop_returns_iff:
  "(importOpenAPILoop n s all mu r ord \<noteq> None) = nestingWithin n all s"
proof (induction n arbitrary: s mu r ord)
  case 0
  then show ?case by simp
next
  case (Suc n)
  show ?case
  proof (cases "d_properties s")
    case None
    then show ?thesis by (simp add: Let_def loopRefs_def orEmpty_def resolved_Nil)
  next
    case (Some props)
    then show ?thesis
      using walk_returns_step[of n all "orEmpty (d_required s)" 0 props, OF Suc]
      by (auto simp: Let_def loopRefs_def orEmpty_def split: option.splits)
  qed
qed

lemma walk_returns_iff:
  "(walkProperties n all req io ps \<noteq> None) =
     list_all (nestingWithin n all) (filter (\<lambda>d. truthy (d_loop_id d)) (resolvedDefinitions all ps))"
  by (rule walk_returns_step) (rule loop_returns_iff)






subsection \<open>Trees\<close>



subsection \<open>A larger depth bound changes no result\<close>




subsection \<open>Termination of the loop conversion\<close>

lemma selfLoop_refs: "loopRefs cyclicSchemas selfLoop = [selfLoop]"
  by code_simp

lemma selfLoop_unbounded: "\<not> nestingWithin n cyclicSchemas selfLoop"
  by (induction n) (simp_all add: selfLoop_refs)




subsection \<open>The transaction-set root\<close>

lemma findTransactionSet_None:
  "(findTransactionSet schemas = None) =
     list_all (\<lambda>entry. \<not> truthy (d_message_id (snd entry))) schemas"
  by (auto simp: findTransactionSet_def find_None_iff list_all_iff)

lemma format_cases:
  "importOpenAPIFormat n doc =
     (case findTransactionSet (orEmpty (components_schemas doc)) of
        None \<Rightarrow> Some (Inl NoTransactionSet)
      | Some found \<Rightarrow>
          (case walkProperties n (orEmpty (components_schemas doc))
                  (orEmpty (d_required (snd found))) 0 (orEmpty (d_properties (snd found))) of
             None \<Rightarrow> None
           | Some res \<Rightarrow>
               Some (Inr
                 \<lparr>sp_metadata =
                    \<lparr>m_name = templateName (orStrOpt (d_message_id (snd found)) [])
                                (''Transaction Set '' @ orStrOpt (d_message_id (snd found)) []),
                     m_version = ''1.0'',
                     m_transactionSet = orStrOpt (d_message_id (snd found)) [],
                     m_transactionSetName = templateName (orStrOpt (d_message_id (snd found)) [])
                                              (orStrOpt (d_message_id (snd found)) []),
                     m_ediVersion = ''005010'',
                     m_baseSpecReference =
                       Some (''EdiNation/OpenAPI/'' @ orStrOpt (d_message_id (snd found)) [])\<rparr>,
                  sp_loops =
                    [Loop (''TS'' @ orStrOpt (d_message_id (snd found)) [])
                       (''Transaction Set '' @ orStrOpt (d_message_id (snd found)) [])
                       Mandatory (Some Mandatory) 1 1 (Some 1) (Some 1) (fst res) (snd res) None],
                  sp_examples = []\<rparr>)))"
  by (cases "d_properties (snd (the (findTransactionSet (orEmpty (components_schemas doc)))))")
     (auto simp: importOpenAPIFormat_def Let_def orEmpty_def split: option.splits prod.splits)

lemma format_error_iff:
  "importOpenAPIFormat n doc = Some (Inl e) \<longleftrightarrow>
      e = NoTransactionSet \<and>
      list_all (\<lambda>entry. \<not> truthy (d_message_id (snd entry))) (orEmpty (components_schemas doc))"
  unfolding format_cases findTransactionSet_None[symmetric]
  by (auto split: option.splits)

lemma format_returns_iff:
  "(\<exists>spec. importOpenAPIFormat n doc = Some (Inr spec)) \<longleftrightarrow>
      (\<exists>found. findTransactionSet (orEmpty (components_schemas doc)) = Some found \<and>
         list_all (nestingWithin n (orEmpty (components_schemas doc)))
           (loopRefs (orEmpty (components_schemas doc)) (snd found)))"
proof (cases "findTransactionSet (orEmpty (components_schemas doc))")
  case None
  then show ?thesis by (simp add: format_cases)
next
  case (Some found)
  show ?thesis
    using walk_returns_iff[of n "orEmpty (components_schemas doc)"
        "orEmpty (d_required (snd found))" 0 "orEmpty (d_properties (snd found))"]
    by (auto simp: format_cases Some loopRefs_def split: option.splits)
qed

lemma format_diverges_iff:
  "importOpenAPIFormat n doc = None \<longleftrightarrow>
      (\<exists>found. findTransactionSet (orEmpty (components_schemas doc)) = Some found \<and>
         \<not> list_all (nestingWithin n (orEmpty (components_schemas doc)))
           (loopRefs (orEmpty (components_schemas doc)) (snd found)))"
proof (cases "findTransactionSet (orEmpty (components_schemas doc))")
  case None
  then show ?thesis by (simp add: format_cases)
next
  case (Some found)
  show ?thesis
    using walk_returns_iff[of n "orEmpty (components_schemas doc)"
        "orEmpty (d_required (snd found))" 0 "orEmpty (d_properties (snd found))"]
    by (auto simp: format_cases Some loopRefs_def split: option.splits)
qed

text \<open>
  C7, as amended. Schema-format conversion raises an error exactly when no definition of
  the mapping carries a non-empty message-id marker, and that error is the missing
  transaction set. It returns a Specification exactly when some definition carries a
  non-empty marker and the chains of loop-like references from the first such definition
  stay within the depth bound; the transaction set of the result is the marker of the
  first definition that carries a non-empty one.
\<close>

theorem missing_root_is_the_only_error:
  "(importOpenAPIFormat n doc = Some (Inl e) \<longleftrightarrow>
      e = NoTransactionSet \<and>
      list_all (\<lambda>entry. \<not> truthy (d_message_id (snd entry))) (orEmpty (components_schemas doc))) \<and>
   ((\<exists>spec. importOpenAPIFormat n doc = Some (Inr spec)) \<longleftrightarrow>
      (\<exists>found. findTransactionSet (orEmpty (components_schemas doc)) = Some found \<and>
         list_all (nestingWithin n (orEmpty (components_schemas doc)))
           (loopRefs (orEmpty (components_schemas doc)) (snd found)))) \<and>
   (importOpenAPIFormat n doc = Some (Inr spec) \<longrightarrow>
      (\<exists>i < length (orEmpty (components_schemas doc)).
         d_message_id (snd (orEmpty (components_schemas doc) ! i)) =
           Some (m_transactionSet (sp_metadata spec)) \<and>
         m_transactionSet (sp_metadata spec) \<noteq> [] \<and>
         (\<forall>j < i. \<not> truthy (d_message_id (snd (orEmpty (components_schemas doc) ! j))))))"
proof -
  let ?all = "orEmpty (components_schemas doc)"
  have 1: "importOpenAPIFormat n doc = Some (Inl e) \<longleftrightarrow>
      e = NoTransactionSet \<and> list_all (\<lambda>entry. \<not> truthy (d_message_id (snd entry))) ?all"
    by (rule format_error_iff)
  have 2: "(\<exists>spec. importOpenAPIFormat n doc = Some (Inr spec)) \<longleftrightarrow>
      (\<exists>found. findTransactionSet ?all = Some found \<and>
         list_all (nestingWithin n ?all) (loopRefs ?all (snd found)))"
    by (rule format_returns_iff)
  have 3: "importOpenAPIFormat n doc = Some (Inr spec) \<longrightarrow>
      (\<exists>i < length ?all.
         d_message_id (snd (?all ! i)) = Some (m_transactionSet (sp_metadata spec)) \<and>
         m_transactionSet (sp_metadata spec) \<noteq> [] \<and>
         (\<forall>j < i. \<not> truthy (d_message_id (snd (?all ! j)))))"
  proof
    assume ok: "importOpenAPIFormat n doc = Some (Inr spec)"
    then obtain found where f: "findTransactionSet ?all = Some found"
      and m: "m_transactionSet (sp_metadata spec) = orStrOpt (d_message_id (snd found)) []"
      unfolding format_cases by (auto split: option.splits)
    from f obtain i where i: "i < length ?all" "truthy (d_message_id (snd (?all ! i)))"
      "found = ?all ! i" "\<forall>j < i. \<not> truthy (d_message_id (snd (?all ! j)))"
      unfolding findTransactionSet_def find_Some_iff by blast
    have "d_message_id (snd (?all ! i)) = Some (m_transactionSet (sp_metadata spec)) \<and>
          m_transactionSet (sp_metadata spec) \<noteq> []"
      using i(2,3) m by (auto simp: truthy_def orStrOpt_def split: option.splits)
    then show "\<exists>i < length ?all.
         d_message_id (snd (?all ! i)) = Some (m_transactionSet (sp_metadata spec)) \<and>
         m_transactionSet (sp_metadata spec) \<noteq> [] \<and>
         (\<forall>j < i. \<not> truthy (d_message_id (snd (?all ! j))))"
      using i(1,4) by blast
  qed
  show ?thesis using 1 2 3 by blast
qed

theorem missing_root_is_the_only_error_witness:
  "importOpenAPIFormat 1 doc810 = Some (Inr spec810) \<and>
   d_message_id (snd (schemas810 ! 0)) = Some ''810'' \<and>
   m_transactionSet (sp_metadata spec810) = ''810'' \<and>
   importOpenAPIFormat 1 \<lparr>components_schemas = Some (tl schemas810)\<rparr> = Some (Inl NoTransactionSet) \<and>
   list_all (\<lambda>entry. \<not> truthy (d_message_id (snd entry))) (tl schemas810)"
proof -
  have a: "d_message_id (snd (schemas810 ! 0)) = Some ''810''" by code_simp
  have b: "m_transactionSet (sp_metadata spec810) = ''810''" by code_simp
  have c: "list_all (\<lambda>entry. \<not> truthy (d_message_id (snd entry))) (tl schemas810)" by code_simp
  have d: "importOpenAPIFormat 1 \<lparr>components_schemas = Some (tl schemas810)\<rparr> = Some (Inl NoTransactionSet)"
    using missing_root_is_the_only_error[of 1 "\<lparr>components_schemas = Some (tl schemas810)\<rparr>"
        NoTransactionSet spec810] c
    by (simp add: orEmpty_def)
  show ?thesis using a b c d doc810_converts by blast
qed

text \<open>
  C7 as stated fails twice: a mapping whose transaction set carries the marker and reaches
  a self-referring loop yields no Specification at any depth, and a definition that
  carries the marker with an empty value is not taken as a transaction set.
\<close>

theorem marker_without_result_counterexample:
  "d_message_id (snd (hd cyclicSchemas)) = Some ''856'' \<and>
   (\<forall>n. importOpenAPIFormat n cyclicDoc = None) \<and>
   map (d_message_id \<circ> snd) (orEmpty (components_schemas blankMarkerDoc)) = [Some []] \<and>
   (\<forall>n. importOpenAPIFormat n blankMarkerDoc = Some (Inl NoTransactionSet))"
proof -
  have a: "d_message_id (snd (hd cyclicSchemas)) = Some ''856''" by code_simp
  have s: "orEmpty (components_schemas cyclicDoc) = cyclicSchemas"
    by (simp add: cyclicDoc_def orEmpty_def)
  have f: "findTransactionSet cyclicSchemas = Some (hd cyclicSchemas)"
    by code_simp
  have r: "loopRefs cyclicSchemas (snd (hd cyclicSchemas)) = [selfLoop]"
    by code_simp
  have b: "importOpenAPIFormat n cyclicDoc = None" for n
    unfolding format_diverges_iff s f using selfLoop_unbounded[of n] by (simp add: r)
  have c: "map (d_message_id \<circ> snd) (orEmpty (components_schemas blankMarkerDoc)) = [Some []]"
    by code_simp
  have "list_all (\<lambda>entry. \<not> truthy (d_message_id (snd entry)))
          (orEmpty (components_schemas blankMarkerDoc))"
    by code_simp
  then have d: "importOpenAPIFormat n blankMarkerDoc = Some (Inl NoTransactionSet)" for n
    by (simp add: format_error_iff)
  show ?thesis using a b c d by blast
qed

subsection \<open>Unresolvable references\<close>





subsection \<open>Order indices\<close>












end
